theory Spec2Isabelle
  imports Complex_Main
begin

section \<open>Data model: strings, colours, fonts and draw calls\<close>

text \<open>
  The four generator scripts are straight-line Python over the Pillow drawing API. The
  drawing surface \<open>d\<close> is mutated by every call; here each helper returns the list of draw
  calls it issues, in call order, and a script is the concatenation of those lists.

  A Python \<open>str\<close> is a sequence of Unicode code points, so it is a list of naturals; \<open>str\<close>
  embeds an ASCII literal.
\<close>

type_synonym pystr = "nat list"

definition str :: "string \<Rightarrow> pystr" where
  "str cs = map of_char cs"

text \<open>Python's \<open>str(n)\<close> on an integer: decimal digits, with a minus sign when negative.\<close>

fun str_nat :: "nat \<Rightarrow> pystr" where
  "str_nat n = (if n < 10 then [48 + n] else str_nat (n div 10) @ [48 + n mod 10])"

definition str_int :: "int \<Rightarrow> pystr" where
  "str_int i = (if i < 0 then 45 # str_nat (nat (- i)) else str_nat (nat i))"

text \<open>A colour is an RGB tuple (the maps scripts) or a colour string (the email scripts).\<close>

datatype color = RGB int int int | ColorName string

text \<open>
  A font handle is what \<open>ImageFont.truetype(path, size)\<close> or \<open>ImageFont.load_default()\<close>
  returns.
\<close>

datatype font = FreeTypeFont string int | DefaultFont

text \<open>
  One constructor per drawing method of the surface that the scripts call, with the
  arguments in Pillow's order; an argument the call leaves out appears with Pillow's
  default (\<open>fill=None\<close>, \<open>outline=None\<close>, \<open>width=1\<close>, \<open>anchor=None\<close>).
\<close>

datatype 'a draw =
    RoundedRectangle "'a \<times> 'a \<times> 'a \<times> 'a" int "color option" "color option" int
  | Rectangle "'a \<times> 'a \<times> 'a \<times> 'a" "color option"
  | Ellipse "'a \<times> 'a \<times> 'a \<times> 'a" "color option"
  | Line "'a \<times> 'a \<times> 'a \<times> 'a" "color option" int
  | Text "'a \<times> 'a" pystr font "color option" "string option"

text \<open>
  The world outside the script. \<open>truetype\<close> is \<open>ImageFont.truetype\<close>: \<open>None\<close> when the
  call raises. \<open>load_default\<close> is the font \<open>ImageFont.load_default()\<close> returns.
  \<open>textlength\<close> is \<open>ImageDraw.textlength\<close>. \<open>save\<close> is \<open>Image.save\<close> at a path: \<open>Some e\<close>
  when it raises \<open>e\<close>.
\<close>

type_synonym exn = string

record env =
  truetype :: "string \<Rightarrow> int \<Rightarrow> font option"
  load_default :: font
  textlength :: "pystr \<Rightarrow> font \<Rightarrow> real"
  save :: "string \<Rightarrow> exn option"

section \<open>generate_maps_redesign_mockup.py\<close>

definition bg :: color where "bg = RGB 14 16 20"
definition card :: color where "card = RGB 22 26 33"
definition card2 :: color where "card2 = RGB 27 31 39"
definition border :: color where "border = RGB 49 57 69"
definition text_col :: color where "text_col = RGB 235 239 245"
definition muted :: color where "muted = RGB 145 155 170"
definition accent :: color where "accent = RGB 232 236 244"
definition accent_text :: color where "accent_text = RGB 15 18 22"
definition chip_idle :: color where "chip_idle = RGB 36 41 50"
definition line_col :: color where "line_col = RGB 61 72 88"

record fonts_redesign =
  f_title :: font
  f_sub :: font
  f_h :: font
  f_b :: font
  f_sm :: font
  f_xs :: font

definition sfns :: string where
  "sfns = ''/System/Library/Fonts/SFNSDisplay.ttf''"

text \<open>
  The \<open>try\<close> block loads six fonts in order and stops at the first call that raises; the
  bare \<open>except\<close> then binds every name to the default font.
\<close>

definition try_fonts_redesign :: "env \<Rightarrow> fonts_redesign option" where
  "try_fonts_redesign e =
     Option.bind (truetype e sfns 42) (\<lambda>t.
     Option.bind (truetype e sfns 22) (\<lambda>s.
     Option.bind (truetype e sfns 28) (\<lambda>h.
     Option.bind (truetype e sfns 20) (\<lambda>b.
     Option.bind (truetype e sfns 17) (\<lambda>sm.
     Option.bind (truetype e sfns 14) (\<lambda>xs.
       Some \<lparr>f_title = t, f_sub = s, f_h = h, f_b = b, f_sm = sm, f_xs = xs\<rparr>))))))"

definition font_setup_redesign :: "env \<Rightarrow> fonts_redesign" where
  "font_setup_redesign e =
     (case try_fonts_redesign e of
        Some F \<Rightarrow> F
      | None \<Rightarrow> \<lparr>f_title = load_default e, f_sub = load_default e, f_h = load_default e,
                 f_b = load_default e, f_sm = load_default e, f_xs = load_default e\<rparr>)"

text \<open>\<open>rr(xy, r=20, fill=None, outline=None, width=1)\<close>\<close>

definition rr :: "int \<times> int \<times> int \<times> int \<Rightarrow> int \<Rightarrow> color option \<Rightarrow> color option \<Rightarrow> int
    \<Rightarrow> int draw list" where
  "rr xy r fill outline width = [RoundedRectangle xy r fill outline width]"

definition labels :: "pystr list" where
  "labels = [str ''Saved'', str ''People'', str ''Timeline'']"

text \<open>The body of the loop over \<open>zip(labels, tx)\<close> in \<open>phone\<close>.\<close>

definition tab_chip :: "fonts_redesign \<Rightarrow> int \<Rightarrow> pystr \<Rightarrow> pystr \<times> int \<Rightarrow> int draw list" where
  "tab_chip F y0 selected_tab = (\<lambda>(lab, cx).
     (let is_sel = (lab = selected_tab) in
        (if is_sel then rr (cx - 54, y0 + 76, cx + 54, y0 + 114) 19 (Some accent) None 1 else [])
        @ [Text (cx, y0 + 95) lab (f_sm F) (Some (if is_sel then accent_text else muted))
             (Some ''mm'')]))"

definition tab_bar :: "fonts_redesign \<Rightarrow> int \<Rightarrow> int \<Rightarrow> pystr \<Rightarrow> int draw list" where
  "tab_bar F x0 y0 selected_tab =
     (let tx = [x0 + 168, x0 + 270, x0 + 382] in
        concat (map (tab_chip F y0 selected_tab) (zip labels tx)))"

text \<open>
  \<open>phone(x0, y0, title, selected_tab)\<close>: the draw calls it issues and the tuple it
  returns, \<open>(pw, ph)\<close>.
\<close>

definition phone :: "fonts_redesign \<Rightarrow> int \<Rightarrow> int \<Rightarrow> pystr \<Rightarrow> pystr \<Rightarrow> int draw list \<times> int list" where
  "phone F x0 y0 title selected_tab =
     (let pw = 540; ph = 860 in
       (rr (x0, y0, x0 + pw, y0 + ph) 34 (Some (RGB 9 11 15)) (Some (RGB 44 50 62)) 2
        @ rr (x0 + 205, y0 + 18, x0 + 335, y0 + 34) 8 (Some (RGB 4 5 7)) None 1
        @ rr (x0 + 22, y0 + 54, x0 + pw - 22, y0 + 136) 24 (Some card) (Some border) 2
        @ rr (x0 + 36, y0 + 72, x0 + 88, y0 + 118) 12 (Some chip_idle) None 1
        @ [Text (x0 + 56, y0 + 84) [8801] (f_b F) (Some text_col) (Some ''mm'')]
        @ rr (x0 + pw - 88, y0 + 72, x0 + pw - 36, y0 + 118) 12 (Some chip_idle) None 1
        @ [Text (x0 + pw - 62, y0 + 94) [8981] (f_b F) (Some text_col) (Some ''mm'')]
        @ rr (x0 + 108, y0 + 72, x0 + pw - 108, y0 + 118) 23 (Some (RGB 32 36 45))
            (Some (RGB 52 58 72)) 1
        @ tab_bar F x0 y0 selected_tab
        @ [Text (x0 + 30, y0 + 165) title (f_h F) (Some text_col) None],
        [pw, ph]))"

text \<open>\<open>stat_pills(x0, y0, labels)\<close>: the loop carries \<open>x\<close>, advanced by 162 after each pill.\<close>

fun stat_pills_loop :: "fonts_redesign \<Rightarrow> int \<Rightarrow> int \<Rightarrow> (pystr \<times> pystr) list \<Rightarrow> int draw list" where
  "stat_pills_loop F x y0 [] = []"
| "stat_pills_loop F x y0 ((l1, l2) # rest) =
     rr (x, y0, x + 150, y0 + 78) 16 (Some card2) (Some (RGB 45 52 64)) 1
     @ [Text (x + 14, y0 + 17) l1 (f_xs F) (Some muted) None,
        Text (x + 14, y0 + 43) l2 (f_b F) (Some text_col) None]
     @ stat_pills_loop F (x + 162) y0 rest"

definition stat_pills :: "fonts_redesign \<Rightarrow> int \<Rightarrow> int \<Rightarrow> (pystr \<times> pystr) list \<Rightarrow> int draw list" where
  "stat_pills F x0 y0 labs = stat_pills_loop F x0 y0 labs"

definition title_redesign :: "fonts_redesign \<Rightarrow> int draw list" where
  "title_redesign F =
     [Text (42, 26) (str ''Seline Maps Redesign (3 Tabs Restored, Same Placement)'')
        (f_title F) (Some text_col) None,
      Text (42, 76) (str ''Concept: Keep Saved / People / Timeline as primary pages, modernize cards + cross-page drill-down'')
        (f_sub F) (Some muted) None]"

subsection \<open>Screen 1: Saved\<close>

definition folders :: "(pystr \<times> int) list" where
  "folders = [(str ''Home'', 11), (str ''Work'', 7), (str ''Food & Dining'', 9), (str ''Travel'', 5)]"

text \<open>The body of the folders loop, for index \<open>i\<close> and item \<open>(name, count)\<close>.\<close>

definition folder_row :: "fonts_redesign \<Rightarrow> int \<Rightarrow> int \<Rightarrow> int \<Rightarrow> nat \<times> pystr \<times> int \<Rightarrow> int draw list" where
  "folder_row F x1 y pw = (\<lambda>(i, name, count).
     (let yy = y + 584 + int i * 54 in
        rr (x1 + 40, yy, x1 + pw - 40, yy + 42) 12 (Some card2) None 1
        @ [Text (x1 + 54, yy + 21) name (f_xs F) (Some text_col) (Some ''lm''),
           Text (x1 + pw - 58, yy + 21) (str_int count) (f_xs F) (Some muted) (Some ''rm'')]))"

definition folders_loop :: "fonts_redesign \<Rightarrow> int \<Rightarrow> int \<Rightarrow> int \<Rightarrow> (pystr \<times> int) list \<Rightarrow> int draw list" where
  "folders_loop F x1 y pw items = concat (map (folder_row F x1 y pw) (enumerate 0 items))"

definition map_pin :: "int \<times> int \<Rightarrow> int draw list" where
  "map_pin = (\<lambda>(px, py).
     rr (px - 8, py - 8, px + 8, py + 8) 8 (Some (RGB 220 80 80)) None 1
     @ rr (px - 3, py - 3, px + 3, py + 3) 3 (Some (RGB 250 240 240)) None 1)"

text \<open>
  Lines 78 to 108, as a function of the two variables \<open>x1\<close> and \<open>y\<close> that the script binds
  to 36 and 106; \<open>pw\<close> and \<open>ph\<close> are unpacked from what \<open>phone\<close> returns.
\<close>

definition screen_saved :: "fonts_redesign \<Rightarrow> int \<Rightarrow> int \<Rightarrow> int draw list" where
  "screen_saved F x1 y =
     (let (frame, ret) = phone F x1 y (str ''Saved Locations'') (str ''Saved'');
          pw = ret ! 0; ph = ret ! 1 in
        frame
        @ rr (x1 + 24, y + 198, x1 + pw - 24, y + 268) 18 (Some card) (Some border) 1
        @ [Text (x1 + 40, y + 216) (str ''Current location'') (f_xs F) (Some muted) None,
           Text (x1 + 40, y + 240) (str ''Home '' @ [183] @ str '' 3h 42m'') (f_b F)
             (Some (RGB 95 220 130)) None,
           Text (x1 + pw - 44, y + 236) (str ''Open'') (f_xs F) (Some accent_text) (Some ''mm'')]
        @ rr (x1 + pw - 86, y + 218, x1 + pw - 26, y + 252) 14 (Some accent) None 1
        @ stat_pills F (x1 + 24) (y + 282)
            [(str ''Saved'', str ''32''), (str ''Favorites'', str ''8''),
             (str ''Active today'', str ''4'')]
        @ rr (x1 + 24, y + 372, x1 + pw - 24, y + 520) 20 (Some card) (Some border) 1
        @ [Text (x1 + 42, y + 392) (str ''Map Snapshot'') (f_sm F) (Some text_col) None,
           Text (x1 + 42, y + 416) (str ''Tap cluster to open folder list'') (f_xs F)
             (Some muted) None]
        @ map (\<lambda>i. Line (x1 + 44 + int i * 70, y + 452, x1 + 72 + int i * 70, y + 488)
                 (Some line_col) 2) [0..<6]
        @ concat (map map_pin
            [(x1 + 130, y + 454), (x1 + 240, y + 478), (x1 + 325, y + 440), (x1 + 420, y + 490)])
        @ rr (x1 + 24, y + 534, x1 + pw - 24, y + 816) 20 (Some card) (Some border) 1
        @ [Text (x1 + 42, y + 554) (str ''Folders'') (f_sm F) (Some text_col) None]
        @ folders_loop F x1 y pw folders)"

subsection \<open>Screen 2: People\<close>

definition frequent_chip :: "fonts_redesign \<Rightarrow> int \<Rightarrow> int \<Rightarrow> nat \<times> pystr \<times> int \<Rightarrow> int draw list" where
  "frequent_chip F x2 y = (\<lambda>(i, nm, cnt).
     (let xx = x2 + 42 + int i * 160 in
        rr (xx, y + 334, xx + 148, y + 374) 12 (Some card2) None 1
        @ [Text (xx + 12, y + 348) nm (f_xs F) (Some text_col) None,
           Text (xx + 12, y + 364) (str_int cnt @ str '' visits'') (f_xs F) (Some muted) None]))"

definition rows :: "(pystr \<times> pystr) list" where
  "rows =
     [(str ''FAMILY '' @ [183] @ str '' 8'', str ''Mom, Dad, Sister''),
      (str ''FRIENDS '' @ [183] @ str '' 14'', str ''Sujus, Ragulan, Amaan''),
      (str ''WORK '' @ [183] @ str '' 9'', str ''Manager, Team Lead''),
      (str ''OTHER '' @ [183] @ str '' 15'', str ''Dentist, Trainer, Barber'')]"

text \<open>The people rows: the loop carries \<open>yy\<close>, advanced by 92 after each row.\<close>

fun people_rows_loop :: "fonts_redesign \<Rightarrow> int \<Rightarrow> int \<Rightarrow> (pystr \<times> pystr) list \<Rightarrow> int draw list" where
  "people_rows_loop F x2 yy [] = []"
| "people_rows_loop F x2 yy ((g, names) # rest) =
     [Text (x2 + 42, yy) g (f_xs F) (Some muted) None]
     @ rr (x2 + 40, yy + 20, x2 + 500, yy + 62) 12 (Some card2) None 1
     @ [Text (x2 + 52, yy + 42) names (f_xs F) (Some text_col) (Some ''lm''),
        Text (x2 + 486, yy + 42) ([8599] @ str '' timeline'') (f_xs F) (Some (RGB 180 190 205))
          (Some ''rm'')]
     @ people_rows_loop F x2 (yy + 92) rest"

definition screen_people :: "fonts_redesign \<Rightarrow> int \<Rightarrow> int \<Rightarrow> int draw list" where
  "screen_people F x2 y =
     fst (phone F x2 y (str ''People'') (str ''People''))
     @ stat_pills F (x2 + 24) (y + 198)
         [(str ''People'', str ''46''), (str ''With visits'', str ''31''),
          (str ''New month'', str ''5'')]
     @ rr (x2 + 24, y + 288, x2 + 540 - 24, y + 390) 20 (Some card) (Some border) 1
     @ [Text (x2 + 42, y + 308) (str ''Frequent Together'') (f_sm F) (Some text_col) None]
     @ concat (map (frequent_chip F x2 y)
         (enumerate 0 [(str ''Sujus'', 18), (str ''Liliana'', 12), (str ''Ragulan'', 10)]))
     @ rr (x2 + 24, y + 406, x2 + 540 - 24, y + 816) 20 (Some card) (Some border) 1
     @ [Text (x2 + 42, y + 426) (str ''People List'') (f_sm F) (Some text_col) None]
     @ people_rows_loop F x2 (y + 454) rows"

subsection \<open>Screen 3: Timeline\<close>

definition week_chip :: "fonts_redesign \<Rightarrow> int \<Rightarrow> int \<Rightarrow> nat \<times> pystr \<Rightarrow> int draw list" where
  "week_chip F x3 y = (\<lambda>(i, day).
     (let xx = x3 + 40 + int i * 79;
          sel = (day = str ''T 20'') in
        rr (xx, y + 284, xx + 68, y + 316) 12 (Some (if sel then accent else chip_idle)) None 1
        @ [Text (xx + 34, y + 300) day (f_xs F) (Some (if sel then accent_text else muted))
             (Some ''mm'')]))"

definition visit_rows :: "(pystr \<times> pystr \<times> pystr) list" where
  "visit_rows =
     [(str ''9:12 AM'', str ''Home'', str ''with Sujus '' @ [183] @ str '' note added''),
      (str ''11:30 AM'', str ''RBC Office'', str ''with Team '' @ [183] @ str '' 2h 10m''),
      (str ''2:05 PM'', str ''Mos Mos Coffee'', str ''solo '' @ [183] @ str '' quick stop''),
      (str ''6:15 PM'', str ''GoodLife Gym'', str ''with Ragulan '' @ [183] @ str '' workout'')]"

text \<open>The visit rows: the loop carries \<open>yy\<close>, advanced by 98 after each row.\<close>

fun visit_rows_loop :: "fonts_redesign \<Rightarrow> int \<Rightarrow> int \<Rightarrow> (pystr \<times> pystr \<times> pystr) list
    \<Rightarrow> int draw list" where
  "visit_rows_loop F x3 yy [] = []"
| "visit_rows_loop F x3 yy ((t, p, meta) # rest) =
     rr (x3 + 40, yy, x3 + 500, yy + 88) 14 (Some card2) None 1
     @ [Text (x3 + 54, yy + 18) t (f_xs F) (Some muted) None,
        Text (x3 + 54, yy + 42) p (f_b F) (Some text_col) None,
        Text (x3 + 54, yy + 64) meta (f_xs F) (Some muted) None,
        Text (x3 + 486, yy + 42) [8226, 8226, 8226] (f_sm F) (Some muted) (Some ''rm'')]
     @ visit_rows_loop F x3 (yy + 98) rest"

definition screen_timeline :: "fonts_redesign \<Rightarrow> int \<Rightarrow> int \<Rightarrow> int draw list" where
  "screen_timeline F x3 y =
     fst (phone F x3 y (str ''Timeline'') (str ''Timeline''))
     @ rr (x3 + 24, y + 198, x3 + 540 - 24, y + 258) 16 (Some card) (Some border) 1
     @ [Text (x3 + 42, y + 218) (str ''Thursday, Feb 20'') (f_sm F) (Some text_col) None,
        Text (x3 + 42, y + 240) (str ''6 visits '' @ [183] @ str '' 5h 24m'') (f_xs F)
          (Some muted) None]
     @ rr (x3 + 24, y + 272, x3 + 540 - 24, y + 328) 16 (Some card) (Some border) 1
     @ concat (map (week_chip F x3 y)
         (enumerate 0 [str ''M 17'', str ''T 18'', str ''W 19'', str ''T 20'', str ''F 21'',
                       str ''S 22'']))
     @ rr (x3 + 24, y + 342, x3 + 540 - 24, y + 816) 20 (Some card) (Some border) 1
     @ [Text (x3 + 42, y + 362) (str ''Visits'') (f_sm F) (Some text_col) None]
     @ visit_rows_loop F x3 (y + 390) visit_rows"

subsection \<open>The connected-UX panel and the whole drawing\<close>

definition ux_panel :: "fonts_redesign \<Rightarrow> int draw list" where
  \<open>ux_panel F =
     rr (36, 900, 1764, 964) 16 (Some (RGB 18 22 28)) (Some (RGB 55 63 77)) 1
     @ [Text (52, 914) (str ''Connected UX recommendations: 1) Tap folder in Saved -> auto-filter Timeline to that folder + date chips. 2) Tap person in People -> open Timeline prefiltered to "with this person".'')
          (f_xs F) (Some (RGB 185 195 210)) None,
        Text (52, 938) (str ''3) From Timeline visit card: one-tap actions -> Add/Edit notes, Link people, Open place detail. 4) Keep swipe-back on all drill-down pages, but keep these 3 tabs pinned in the same top position.'')
          (f_xs F) (Some (RGB 185 195 210)) None]\<close>

text \<open>
  The surface is the canvas \<open>Image.new('RGB', (W, H), bg)\<close> and the draw calls made on it,
  in call order.
\<close>

record 'a surface =
  size :: "int \<times> int"
  background :: color
  calls :: "'a draw list"

definition draw_redesign :: "fonts_redesign \<Rightarrow> int surface" where
  "draw_redesign F =
     (let x1 = 36; y = 106; x2 = 630; x3 = 1224 in
        \<lparr>size = (1800, 980), background = bg,
         calls = title_redesign F @ screen_saved F x1 y @ screen_people F x2 y
                 @ screen_timeline F x3 y @ ux_panel F\<rparr>)"

section \<open>generate_maps_flow_mockup.py\<close>

text \<open>
  This script computes with \<open>math.atan2\<close>, \<open>math.cos\<close> and \<open>math.sin\<close>; its coordinates are
  Python floats, idealised here as real numbers.
\<close>

record fonts_flow =
  ft :: font
  fh :: font
  fb :: font
  fs :: font

definition try_fonts_flow :: "env \<Rightarrow> fonts_flow option" where
  "try_fonts_flow e =
     Option.bind (truetype e sfns 44) (\<lambda>t.
     Option.bind (truetype e sfns 28) (\<lambda>h.
     Option.bind (truetype e sfns 22) (\<lambda>b.
     Option.bind (truetype e sfns 18) (\<lambda>s.
       Some \<lparr>ft = t, fh = h, fb = b, fs = s\<rparr>))))"

definition font_setup_flow :: "env \<Rightarrow> fonts_flow" where
  "font_setup_flow e =
     (case try_fonts_flow e of
        Some F \<Rightarrow> F
      | None \<Rightarrow> \<lparr>ft = load_default e, fh = load_default e, fb = load_default e,
                 fs = load_default e\<rparr>)"

text \<open>\<open>rr(xy, r=18, fill=(255,255,255), outline=(210,214,220), w=2)\<close>\<close>

definition rr_flow :: "real \<times> real \<times> real \<times> real \<Rightarrow> int \<Rightarrow> color option \<Rightarrow> color option \<Rightarrow> int
    \<Rightarrow> real draw list" where
  "rr_flow xy r fill outline w = [RoundedRectangle xy r fill outline w]"

text \<open>\<open>math.atan2(y, x)\<close> on real arguments; \<open>atan2(0, 0)\<close> is 0.\<close>

definition atan2 :: "real \<Rightarrow> real \<Rightarrow> real" where
  "atan2 y x =
     (if 0 < x then arctan (y / x)
      else if x < 0 then (if 0 \<le> y then arctan (y / x) + pi else arctan (y / x) - pi)
      else if 0 < y then pi / 2
      else if y < 0 then - (pi / 2)
      else 0)"

text \<open>\<open>arrow(x1, y1, x2, y2, c=(96,110,130), w=3)\<close>\<close>

definition arrow :: "real \<Rightarrow> real \<Rightarrow> real \<Rightarrow> real \<Rightarrow> color \<Rightarrow> int \<Rightarrow> real draw list" where
  "arrow x1 y1 x2 y2 c w =
     (let ang = atan2 (y2 - y1) (x2 - x1);
          l = 12;
          a1 = ang + 26 / 10;
          a2 = ang - 26 / 10 in
        [Line (x1, y1, x2, y2) (Some c) w,
         Line (x2, y2, x2 + l * cos a1, y2 + l * sin a1) (Some c) w,
         Line (x2, y2, x2 + l * cos a2, y2 + l * sin a2) (Some c) w])"

text \<open>
  The script's five loops \<open>for i, t in enumerate([...]): d.text((x, y0 + i*k), t, font=f,
  fill=c)\<close> differ only in these literals.
\<close>

definition text_lines :: "real \<Rightarrow> real \<Rightarrow> real \<Rightarrow> font \<Rightarrow> color \<Rightarrow> pystr list \<Rightarrow> real draw list" where
  "text_lines x y0 k f c ts =
     map (\<lambda>(i, t). Text (x, y0 + real i * k) t f (Some c) None) (enumerate 0 ts)"

definition bullet :: "string \<Rightarrow> pystr" where
  "bullet cs = 8226 # str cs"

definition header_flow :: "fonts_flow \<Rightarrow> real draw list" where
  "header_flow F =
     [Text (40, 26) (str ''Maps 3-Page UX Flow (Saved / People / Timeline)'') (ft F)
        (Some (RGB 20 24 31)) None,
      Text (40, 84) (str ''Keep tabs pinned in top center; use contextual deep-links so pages feel connected, not isolated.'')
        (fs F) (Some (RGB 92 102 119)) None]"

definition nodes_flow :: "fonts_flow \<Rightarrow> real draw list" where
  \<open>nodes_flow F =
     rr_flow (70, 170, 520, 400) 18 (Some (RGB 255 255 255)) (Some (RGB 210 214 220)) 2
     @ [Text (96, 196) (str ''Saved Locations'') (fh F) (Some (RGB 17 24 39)) None]
     @ text_lines 96 250 34 (fs F) (RGB 71 85 105)
         [bullet '' Folder cards + mini map + current location'',
          bullet '' Tap folder -> open filtered timeline'',
          bullet '' Tap place -> place detail + visit history'',
          bullet '' Long press place -> rename/move/favorite'']
     @ rr_flow (560, 170, 1030, 400) 18 (Some (RGB 255 255 255)) (Some (RGB 210 214 220)) 2
     @ [Text (586, 196) (str ''People'') (fh F) (Some (RGB 17 24 39)) None]
     @ text_lines 586 250 34 (fs F) (RGB 71 85 105)
         [bullet '' Grouped list (Family/Friends/Work/Custom)'',
          bullet '' Tap person -> profile + linked places'',
          bullet '' Quick chip: "Show visits with this person"'',
          bullet '' Favorites row for one-tap access'']
     @ rr_flow (1070, 170, 1530, 400) 18 (Some (RGB 255 255 255)) (Some (RGB 210 214 220)) 2
     @ [Text (1096, 196) (str ''Timeline'') (fh F) (Some (RGB 17 24 39)) None]
     @ text_lines 1096 250 34 (fs F) (RGB 71 85 105)
         [bullet '' Calendar strip + day timeline cards'',
          bullet '' Card actions: notes, people, merge, delete'',
          bullet '' Filter chips: Folder, Person, Date range'',
          bullet '' Swipe-back from all detail screens'']\<close>

definition arrow_c :: color where "arrow_c = RGB 96 110 130"

definition arrows_top_flow :: "real draw list" where
  "arrows_top_flow =
     arrow 520 280 560 280 arrow_c 3
     @ arrow 1030 280 1070 280 arrow_c 3
     @ arrow 1070 330 520 330 arrow_c 3"

definition shared_layer_flow :: "fonts_flow \<Rightarrow> real draw list" where
  "shared_layer_flow F =
     rr_flow (200, 480, 1410, 640) 18 (Some (RGB 243 246 252)) (Some (RGB 188 199 216)) 2
     @ [Text (230, 510) (str ''Shared Context Layer (cross-page glue)'') (fb F)
          (Some (RGB 30 41 59)) None]
     @ text_lines 230 550 30 (fs F) (RGB 51 65 85)
         [str ''1) Unified filter state: selected folder / selected person / selected date persists across tab changes.'',
          str ''2) Location visit events auto-refresh Timeline and subtly update Saved + People badges in real time.'',
          str ''3) Person-place linkage: from a timeline visit, attach people; reflected in both person profile and folder analytics.'']"

definition drilldown_flow :: "fonts_flow \<Rightarrow> real draw list" where
  "drilldown_flow F =
     rr_flow (70, 700, 1530, 850) 18 (Some (RGB 255 255 255)) (Some (RGB 210 214 220)) 2
     @ [Text (96, 726) (str ''Recommended drill-down pages (full screen + back swipe)'') (fb F)
          (Some (RGB 17 24 39)) None]
     @ text_lines 96 764 28 (fs F) (RGB 71 85 105)
         [bullet '' Place Detail: map preview, visit streaks, spend/notes links, related people.'',
          bullet '' Person Detail: relationship, upcoming dates, places visited together, timeline shortcut.'',
          bullet '' Day Detail: full timeline cards, AI day summary, merge mode, edit notes/people inline.'']"

definition arrows_shared_flow :: "real draw list" where
  "arrows_shared_flow =
     arrow 295 400 420 480 arrow_c 3
     @ arrow 790 400 800 480 arrow_c 3
     @ arrow 1300 400 1180 480 arrow_c 3"

definition draw_flow :: "fonts_flow \<Rightarrow> real surface" where
  "draw_flow F =
     \<lparr>size = (1600, 900), background = RGB 248 250 252,
      calls = header_flow F @ nodes_flow F @ arrows_top_flow @ shared_layer_flow F
              @ drilldown_flow F @ arrows_shared_flow\<rparr>"

section \<open>generate_email_redesign_mockups.py\<close>

record fonts_email =
  f_title_e :: font
  f_sub_e :: font
  f_body :: font
  f_small :: font
  f_h3 :: font

definition arial_bold :: string where
  "arial_bold = ''/System/Library/Fonts/Supplemental/Arial Bold.ttf''"

definition arial :: string where
  "arial = ''/System/Library/Fonts/Supplemental/Arial.ttf''"

definition try_fonts_email :: "env \<Rightarrow> fonts_email option" where
  "try_fonts_email e =
     Option.bind (truetype e arial_bold 40) (\<lambda>t.
     Option.bind (truetype e arial 22) (\<lambda>s.
     Option.bind (truetype e arial 18) (\<lambda>b.
     Option.bind (truetype e arial 15) (\<lambda>sm.
     Option.bind (truetype e arial_bold 24) (\<lambda>h3.
       Some \<lparr>f_title_e = t, f_sub_e = s, f_body = b, f_small = sm, f_h3 = h3\<rparr>)))))"

definition font_setup_email :: "env \<Rightarrow> fonts_email" where
  "font_setup_email e =
     (case try_fonts_email e of
        Some F \<Rightarrow> F
      | None \<Rightarrow> \<lparr>f_title_e = load_default e, f_sub_e = load_default e,
                 f_body = load_default e, f_small = load_default e, f_h3 = load_default e\<rparr>)"

definition WHITE :: color where "WHITE = ColorName ''#F3F4F6''"

text \<open>
  \<open>phone(x, y, w=490, h=1240, title='')\<close>: the draw calls it issues and the tuple it
  returns, \<open>(x, y, w, h)\<close>. The title is drawn when the string is not empty.
\<close>

definition phone_email :: "fonts_email \<Rightarrow> int \<Rightarrow> int \<Rightarrow> int \<Rightarrow> int \<Rightarrow> pystr
    \<Rightarrow> int draw list \<times> int list" where
  "phone_email F x y w h title =
     ([RoundedRectangle (x, y, x + w, y + h) 48 (Some (ColorName ''#0f1115''))
         (Some (ColorName ''#2b2f36'')) 3,
       RoundedRectangle (x + 170, y + 20, x + w - 170, y + 54) 16 (Some (ColorName ''#08090b''))
         None 1]
      @ (if title \<noteq> [] then [Text (x + 24, y + 72) title (f_h3 F) (Some WHITE) None] else []),
      [x, y, w, h])"

definition chips :: "pystr list" where
  "chips = [str ''Sounds good'', str ''Need more info'', str ''Decline politely'',
            str ''Schedule call'']"

text \<open>
  The body of the smart-reply loop, for index \<open>i\<close> and label \<open>c\<close>. \<open>tw\<close> is a float and
  \<open>/\<close> is true division, so the text position is a real number.
\<close>

definition smart_reply_chip :: "env \<Rightarrow> fonts_email \<Rightarrow> int \<Rightarrow> int \<Rightarrow> nat \<times> pystr \<Rightarrow> real draw list" where
  "smart_reply_chip e F x2 y2 = (\<lambda>(i, c).
     (let row = int (i div 2);
          col = int (i mod 2);
          xx = x2 + 24 + col * 221;
          yy = y2 + 596 + row * 56;
          tw = textlength e c (f_small F) in
        [RoundedRectangle (real_of_int xx, real_of_int yy, real_of_int (xx + 209),
           real_of_int (yy + 44)) 16 (Some (ColorName ''#2A2E36'')) None 1,
         Text (real_of_int xx + (209 - tw) / 2, real_of_int (yy + 13)) c (f_small F)
           (Some WHITE) None]))"

definition smart_reply_loop :: "env \<Rightarrow> fonts_email \<Rightarrow> int \<Rightarrow> int \<Rightarrow> pystr list \<Rightarrow> real draw list" where
  "smart_reply_loop e F x2 y2 cs = concat (map (smart_reply_chip e F x2 y2) (enumerate 0 cs))"

section \<open>generate_email_redesign_keep_sidebar_calendar.py\<close>

record fonts_sidebar =
  f_title_k :: font
  f_sub_k :: font
  f_h_k :: font
  f_b_k :: font
  f_s :: font

definition try_fonts_sidebar :: "env \<Rightarrow> fonts_sidebar option" where
  "try_fonts_sidebar e =
     Option.bind (truetype e arial_bold 42) (\<lambda>t.
     Option.bind (truetype e arial 22) (\<lambda>s.
     Option.bind (truetype e arial_bold 26) (\<lambda>h.
     Option.bind (truetype e arial 18) (\<lambda>b.
     Option.bind (truetype e arial 15) (\<lambda>sm.
       Some \<lparr>f_title_k = t, f_sub_k = s, f_h_k = h, f_b_k = b, f_s = sm\<rparr>)))))"

definition font_setup_sidebar :: "env \<Rightarrow> fonts_sidebar" where
  "font_setup_sidebar e =
     (case try_fonts_sidebar e of
        Some F \<Rightarrow> F
      | None \<Rightarrow> \<lparr>f_title_k = load_default e, f_sub_k = load_default e, f_h_k = load_default e,
                 f_b_k = load_default e, f_s = load_default e\<rparr>)"

definition WHITE_k :: color where "WHITE_k = ColorName ''#F4F5F7''"
definition BLACK :: color where "BLACK = ColorName ''#090A0C''"

text \<open>\<open>phone(x, y, w=540, h=1280, label='')\<close>, returning \<open>x, y, w, h\<close>.\<close>

definition phone_sidebar :: "fonts_sidebar \<Rightarrow> int \<Rightarrow> int \<Rightarrow> int \<Rightarrow> int \<Rightarrow> pystr
    \<Rightarrow> int draw list \<times> int list" where
  "phone_sidebar F x y w h label =
     ([RoundedRectangle (x, y, x + w, y + h) 52 (Some (ColorName ''#0f1218''))
         (Some (ColorName ''#313748'')) 3,
       RoundedRectangle (x + 190, y + 20, x + w - 190, y + 54) 15 (Some BLACK) None 1]
      @ (if label \<noteq> [] then [Text (x + 24, y + 74) label (f_h_k F) (Some WHITE_k) None] else []),
      [x, y, w, h])"

text \<open>
  The body shared by the two smart-reply loops of screen 4; they differ in the row's top
  \<open>ry\<close> (586, 644) and the text's top \<open>ty\<close> (603, 661).
\<close>

definition smart_reply_cell :: "env \<Rightarrow> fonts_sidebar \<Rightarrow> int \<Rightarrow> int \<Rightarrow> int \<Rightarrow> int \<Rightarrow> nat \<times> pystr
    \<Rightarrow> real draw list" where
  "smart_reply_cell e F x4 y4 ry ty = (\<lambda>(i, txt).
     (let xx = x4 + 24 + int i * 246;
          tw = textlength e txt (f_s F) in
        [RoundedRectangle (real_of_int xx, real_of_int (y4 + ry), real_of_int (xx + 234),
           real_of_int (y4 + ry + 50)) 16 (Some (ColorName ''#2a2f3d'')) None 1,
         Text (real_of_int xx + (234 - tw) / 2, real_of_int (y4 + ty)) txt (f_s F)
           (Some WHITE_k) None]))"

definition smart_reply_rows :: "env \<Rightarrow> fonts_sidebar \<Rightarrow> int \<Rightarrow> int \<Rightarrow> real draw list" where
  "smart_reply_rows e F x4 y4 =
     concat (map (smart_reply_cell e F x4 y4 586 603)
       (enumerate 0 [str ''Thanks, got it'', str ''Need confirmation'']))
     @ concat (map (smart_reply_cell e F x4 y4 644 661)
       (enumerate 0 [str ''Can you resend?'', str ''I will reply later'']))"

section \<open>Export: the last three lines of every script\<close>

text \<open>
  \<open>out = '...'; img.save(out); print(out)\<close>. The run's observable behaviour is the
  sequence of calls it makes to the outside world and how the process ends: an exception
  raised by \<open>img.save\<close> is caught nowhere, so it ends the run before \<open>print\<close>.
\<close>

datatype 'a effect = SaveCall string "'a surface" | PrintCall string

datatype exit_status = ExitSuccess | Uncaught exn

record 'a run =
  effects :: "'a effect list"
  status :: exit_status

definition export :: "env \<Rightarrow> 'a surface \<Rightarrow> string \<Rightarrow> 'a run" where
  "export e img out =
     (case save e out of
        Some ex \<Rightarrow> \<lparr>effects = [SaveCall out img], status = Uncaught ex\<rparr>
      | None \<Rightarrow> \<lparr>effects = [SaveCall out img, PrintCall out], status = ExitSuccess\<rparr>)"

definition out_flow :: string where
  "out_flow = ''/Users/alishahamin/Desktop/Vibecode/Seline/.codex_mockups/maps_redesign_flow_mockup.png''"

definition out_redesign :: string where
  "out_redesign = ''/Users/alishahamin/Desktop/Vibecode/Seline/.codex_mockups/maps_redesign_3tabs_mockup.png''"





section \<open>Notions used to state the properties\<close>

text \<open>Moving one draw call by \<open>(dx, dy)\<close>: every coordinate pair is shifted, nothing else changes.\<close>

fun translate :: "int \<Rightarrow> int \<Rightarrow> int draw \<Rightarrow> int draw" where
  "translate dx dy (RoundedRectangle (x0, y0, x1, y1) r fill outline w) =
     RoundedRectangle (x0 + dx, y0 + dy, x1 + dx, y1 + dy) r fill outline w"
| "translate dx dy (Rectangle (x0, y0, x1, y1) fill) =
     Rectangle (x0 + dx, y0 + dy, x1 + dx, y1 + dy) fill"
| "translate dx dy (Ellipse (x0, y0, x1, y1) fill) =
     Ellipse (x0 + dx, y0 + dy, x1 + dx, y1 + dy) fill"
| "translate dx dy (Line (x0, y0, x1, y1) fill w) =
     Line (x0 + dx, y0 + dy, x1 + dx, y1 + dy) fill w"
| "translate dx dy (Text (x, y) s f fill anchor) = Text (x + dx, y + dy) s f fill anchor"

text \<open>The radius a draw call hands to the rasterizer, and the rectangle it is given with.\<close>

fun radius_of :: "'a draw \<Rightarrow> int option" where
  "radius_of (RoundedRectangle xy r fill outline w) = Some r"
| "radius_of _ = None"

fun rect_of :: "'a draw \<Rightarrow> ('a \<times> 'a \<times> 'a \<times> 'a) option" where
  "rect_of (RoundedRectangle xy r fill outline w) = Some xy"
| "rect_of _ = None"

text \<open>
  A returned tuple carries the frame's origin and size when it has four items of which
  the first two are the origin.
\<close>

definition returns_origin_and_size :: "int \<Rightarrow> int \<Rightarrow> int list \<Rightarrow> bool" where
  "returns_origin_and_size x0 y0 ret =
     (case ret of [a, b, w, h] \<Rightarrow> a = x0 \<and> b = y0 | _ \<Rightarrow> False)"





text \<open>In the tab bar, a rounded rectangle is the background of a selected chip, and a label
  filled with \<open>accent_text\<close> is a selected label.\<close>

fun is_chip_background :: "int draw \<Rightarrow> bool" where
  "is_chip_background (RoundedRectangle xy r fill outline w) = True"
| "is_chip_background _ = False"

fun is_selected_label :: "int draw \<Rightarrow> bool" where
  "is_selected_label (Text xy s f fill anchor) = (fill = Some accent_text)"
| "is_selected_label _ = False"

text \<open>
  A smart-reply chip is centred when the left edge of its label is the centre of its
  rectangle minus half the measured width of the label in the label's font.
\<close>

fun centred :: "env \<Rightarrow> real draw list \<Rightarrow> bool" where
  "centred e [RoundedRectangle (x0, y0, x1, y1) r fill outline w, Text (tx, ty) s f c anchor] =
     (tx = (x0 + x1) / 2 - textlength e s f / 2)"
| "centred e _ = False"




text \<open>
  A line segment's start, its vector from start to end, and the usual length, dot product
  and cross product of plane vectors.
\<close>

fun seg_start :: "real draw \<Rightarrow> real \<times> real" where
  "seg_start (Line (x0, y0, x1, y1) fill w) = (x0, y0)"
| "seg_start _ = (0, 0)"

fun seg_vector :: "real draw \<Rightarrow> real \<times> real" where
  "seg_vector (Line (x0, y0, x1, y1) fill w) = (x1 - x0, y1 - y0)"
| "seg_vector _ = (0, 0)"

definition norm2 :: "real \<times> real \<Rightarrow> real" where
  "norm2 v = sqrt ((fst v)\<^sup>2 + (snd v)\<^sup>2)"

definition dot :: "real \<times> real \<Rightarrow> real \<times> real \<Rightarrow> real" where
  "dot u v = fst u * fst v + snd u * snd v"

definition cross :: "real \<times> real \<Rightarrow> real \<times> real \<Rightarrow> real" where
  "cross u v = fst u * snd v - snd u * fst v"

text \<open>
  Three concrete worlds: one where no TrueType font can be loaded, one where the first
  load succeeds and the later ones raise and the output path is not writable, and one
  where every load succeeds.
\<close>

definition env_fallback :: env where
  "env_fallback =
     \<lparr>truetype = (\<lambda>p n. None), load_default = DefaultFont,
      textlength = (\<lambda>s f. 6 * real (length s)), save = (\<lambda>p. None)\<rparr>"

definition env_partial :: env where
  "env_partial =
     \<lparr>truetype = (\<lambda>p n. if n = 44 \<or> n = 42 then Some (FreeTypeFont p n) else None),
      load_default = DefaultFont,
      textlength = (\<lambda>s f. 6 * real (length s)), save = (\<lambda>p. Some ''PermissionError'')\<rparr>"

definition env_truetype :: env where
  "env_truetype =
     \<lparr>truetype = (\<lambda>p n. Some (FreeTypeFont p n)), load_default = DefaultFont,
      textlength = (\<lambda>s f. case f of FreeTypeFont p n \<Rightarrow> real_of_int n * real (length s) / 2
                                   | DefaultFont \<Rightarrow> 6 * real (length s)),
      save = (\<lambda>p. None)\<rparr>"

section \<open>The row loops with their literals as parameters\<close>




section \<open>Text drawing that can raise\<close>

text \<open>
  \<open>d.text(xy, s, font=f, ...)\<close> asks the font to render the string. \<open>draw_text f s\<close> is what
  that call does in a given installation of Pillow: \<open>None\<close> when it returns, \<open>Some ex\<close>
  when it raises \<open>ex\<close>. The other draw calls take numbers and colours only.
\<close>

fun text_error :: "(font \<Rightarrow> pystr \<Rightarrow> exn option) \<Rightarrow> 'a draw \<Rightarrow> exn option" where
  "text_error draw_text (Text xy s f fill anchor) = draw_text f s"
| "text_error draw_text _ = None"

text \<open>
  A script makes its draw calls in order and catches nothing after font setup: the first
  \<open>d.text\<close> that raises ends the run, before \<open>img.save\<close>. When none raises the run is the
  export of the drawn surface.
\<close>

definition run_script :: "(font \<Rightarrow> pystr \<Rightarrow> exn option) \<Rightarrow> env \<Rightarrow> 'a surface \<Rightarrow> string \<Rightarrow> 'a run" where
  "run_script draw_text e img out =
     (case List.map_filter (text_error draw_text) (calls img) of
        ex # later \<Rightarrow> \<lparr>effects = [], status = Uncaught ex\<rparr>
      | [] \<Rightarrow> export e img out)"

definition run_flow_text :: "(font \<Rightarrow> pystr \<Rightarrow> exn option) \<Rightarrow> env \<Rightarrow> real run" where
  "run_flow_text draw_text e = run_script draw_text e (draw_flow (font_setup_flow e)) out_flow"

definition run_redesign_text :: "(font \<Rightarrow> pystr \<Rightarrow> exn option) \<Rightarrow> env \<Rightarrow> int run" where
  "run_redesign_text draw_text e =
     run_script draw_text e (draw_redesign (font_setup_redesign e)) out_redesign"

text \<open>
  Pillow before release 10.1: \<open>load_default()\<close> is a bitmap font whose renderer encodes
  the string as Latin-1, so \<open>d.text\<close> raises \<open>UnicodeEncodeError\<close> on a string with a code
  point above 255; a TrueType font renders every string.
\<close>

definition bitmap_default :: "font \<Rightarrow> pystr \<Rightarrow> exn option" where
  "bitmap_default f s =
     (case f of
        FreeTypeFont p n \<Rightarrow> None
      | DefaultFont \<Rightarrow> if list_all (\<lambda>c. c < 256) s then None else Some ''UnicodeEncodeError'')"

section \<open>Rounded rectangles\<close>

text \<open>
  C8. Both \<open>rr\<close> helpers hand the corner radius they receive to \<open>rounded_rectangle\<close>
  unchanged, together with the rectangle they receive, whatever the relation between the
  radius and the rectangle's half-width and half-height: there is no clamping.
\<close>

theorem rr_radius_passthrough:
  "map radius_of (rr xy r fill outline width) = [Some r]
   \<and> map rect_of (rr xy r fill outline width) = [Some xy]
   \<and> map radius_of (rr_flow xy' r fill outline w) = [Some r]
   \<and> map rect_of (rr_flow xy' r fill outline w) = [Some xy']"
  by (simp add: rr_def rr_flow_def)

section \<open>What the phone builders return\<close>

text \<open>
  C1, as amended. The two email builders return \<open>(x, y, w, h)\<close>: the origin and the size
  they were called with. The maps builder returns the size \<open>(pw, ph) = (540, 860)\<close> only,
  whatever origin it was called with; its caller keeps the origin in its own variables.
\<close>

theorem phone_return_values:
  "snd (phone_email F x y w h title) = [x, y, w, h]
   \<and> returns_origin_and_size x y (snd (phone_email F x y w h title))
   \<and> snd (phone_sidebar G x y w h label) = [x, y, w, h]
   \<and> returns_origin_and_size x y (snd (phone_sidebar G x y w h label))
   \<and> snd (phone R x0 y0 t sel) = [540, 860]"
  by (simp add: phone_email_def phone_sidebar_def phone_def returns_origin_and_size_def)

text \<open>
  C1 as stated fails on the maps builder: the call \<open>phone(36, 106, 'Saved Locations',
  'Saved')\<close> of the script returns a pair that does not hold the origin.
\<close>

theorem phone_maps_returns_size_only:
  "\<not> returns_origin_and_size 36 106
       (snd (phone (font_setup_redesign env_fallback) 36 106 (str ''Saved Locations'')
          (str ''Saved'')))"
  by (simp add: phone_def returns_origin_and_size_def)

section \<open>The tab bar\<close>

lemma labels_distinct:
  "str ''Saved'' \<noteq> str ''People''" "str ''Saved'' \<noteq> str ''Timeline''"
  "str ''People'' \<noteq> str ''Timeline''"
  by (simp_all add: str_def)

lemma muted_not_accent_text: "muted \<noteq> accent_text"
  by (simp add: muted_def accent_text_def)

text \<open>The tab bar's draw calls, by which of the three labels \<open>selected_tab\<close> equals.\<close>

lemma tab_bar_cases:
  "tab_bar F x0 y0 sel =
     (if sel = str ''Saved'' then
        [RoundedRectangle (x0 + 168 - 54, y0 + 76, x0 + 168 + 54, y0 + 114) 19 (Some accent) None 1,
         Text (x0 + 168, y0 + 95) (str ''Saved'') (f_sm F) (Some accent_text) (Some ''mm''),
         Text (x0 + 270, y0 + 95) (str ''People'') (f_sm F) (Some muted) (Some ''mm''),
         Text (x0 + 382, y0 + 95) (str ''Timeline'') (f_sm F) (Some muted) (Some ''mm'')]
      else if sel = str ''People'' then
        [Text (x0 + 168, y0 + 95) (str ''Saved'') (f_sm F) (Some muted) (Some ''mm''),
         RoundedRectangle (x0 + 270 - 54, y0 + 76, x0 + 270 + 54, y0 + 114) 19 (Some accent) None 1,
         Text (x0 + 270, y0 + 95) (str ''People'') (f_sm F) (Some accent_text) (Some ''mm''),
         Text (x0 + 382, y0 + 95) (str ''Timeline'') (f_sm F) (Some muted) (Some ''mm'')]
      else if sel = str ''Timeline'' then
        [Text (x0 + 168, y0 + 95) (str ''Saved'') (f_sm F) (Some muted) (Some ''mm''),
         Text (x0 + 270, y0 + 95) (str ''People'') (f_sm F) (Some muted) (Some ''mm''),
         RoundedRectangle (x0 + 382 - 54, y0 + 76, x0 + 382 + 54, y0 + 114) 19 (Some accent) None 1,
         Text (x0 + 382, y0 + 95) (str ''Timeline'') (f_sm F) (Some accent_text) (Some ''mm'')]
      else
        [Text (x0 + 168, y0 + 95) (str ''Saved'') (f_sm F) (Some muted) (Some ''mm''),
         Text (x0 + 270, y0 + 95) (str ''People'') (f_sm F) (Some muted) (Some ''mm''),
         Text (x0 + 382, y0 + 95) (str ''Timeline'') (f_sm F) (Some muted) (Some ''mm'')])"
  using labels_distinct
  by (auto simp add: tab_bar_def tab_chip_def labels_def rr_def Let_def)

text \<open>
  C9. Whatever \<open>selected_tab\<close> is, the tab bar draws at most one chip background and at
  most one label in the selected colour. When \<open>selected_tab\<close> is none of the three
  labels, it draws exactly the three labels, each in the muted colour, and no background.
  The tab bar is a total function of its arguments: no value of \<open>selected_tab\<close> makes it
  fail.
\<close>

theorem tab_bar_at_most_one_selected:
  "length (filter is_chip_background (tab_bar F x0 y0 sel)) \<le> 1
   \<and> length (filter is_selected_label (tab_bar F x0 y0 sel)) \<le> 1
   \<and> (sel \<notin> set labels \<longrightarrow>
        tab_bar F x0 y0 sel =
          [Text (x0 + 168, y0 + 95) (str ''Saved'') (f_sm F) (Some muted) (Some ''mm''),
           Text (x0 + 270, y0 + 95) (str ''People'') (f_sm F) (Some muted) (Some ''mm''),
           Text (x0 + 382, y0 + 95) (str ''Timeline'') (f_sm F) (Some muted) (Some ''mm'')])"
  using muted_not_accent_text
  by (simp add: tab_bar_cases labels_def)

theorem tab_bar_at_most_one_selected_witness:
  "str ''Map'' \<notin> set labels
   \<and> filter is_chip_background (tab_bar (font_setup_redesign env_fallback) 36 106 (str ''Map'')) = []
   \<and> filter is_selected_label (tab_bar (font_setup_redesign env_fallback) 36 106 (str ''Map'')) = []
   \<and> length (filter is_chip_background
         (tab_bar (font_setup_redesign env_fallback) 36 106 (str ''Saved''))) = 1"
proof -
  have none: "str ''Map'' \<notin> set labels"
    by (simp add: labels_def str_def)
  have one: "length (filter is_chip_background
         (tab_bar (font_setup_redesign env_fallback) 36 106 (str ''Saved''))) = 1"
    by (simp add: tab_bar_cases)
  show ?thesis
    using none one muted_not_accent_text
      tab_bar_at_most_one_selected [of "font_setup_redesign env_fallback" 36 106 "str ''Map''"]
    by simp
qed

section \<open>Relocating a frame\<close>

lemma translate_tab_bar:
  "map (translate dx dy) (tab_bar F x0 y0 sel) = tab_bar F (x0 + dx) (y0 + dy) sel"
  by (simp add: tab_bar_def tab_chip_def labels_def rr_def Let_def add.commute add.left_commute
      add_diff_eq diff_add_eq)

lemma translate_phone:
  "map (translate dx dy) (fst (phone F x0 y0 t sel)) = fst (phone F (x0 + dx) (y0 + dy) t sel)"
  by (simp add: phone_def Let_def translate_tab_bar rr_def add.commute add.left_commute
      add_diff_eq diff_add_eq)

lemma phone_ret: "snd (phone F x0 y0 t sel) = [540, 860]"
  by (simp add: phone_def)

text \<open>The loops that carry a running coordinate: induction on the items, for any start.\<close>

lemma translate_stat_pills_loop:
  "map (translate dx dy) (stat_pills_loop F x y0 labs) = stat_pills_loop F (x + dx) (y0 + dy) labs"
proof (induction labs arbitrary: x)
  case Nil
  show ?case by simp
next
  case (Cons p rest)
  obtain l1 l2 where p: "p = (l1, l2)" by (cases p)
  have eq: "x + 162 + dx = x + dx + 162" by simp
  show ?case
    using Cons.IH [of "x + 162"] unfolding eq
    by (simp add: p rr_def add.commute add.left_commute)
qed

lemma translate_stat_pills:
  "map (translate dx dy) (stat_pills F x y0 labs) = stat_pills F (x + dx) (y0 + dy) labs"
  by (simp add: stat_pills_def translate_stat_pills_loop)

lemma translate_people_rows_loop:
  "map (translate dx dy) (people_rows_loop F x2 yy rs) = people_rows_loop F (x2 + dx) (yy + dy) rs"
proof (induction rs arbitrary: yy)
  case Nil
  show ?case by simp
next
  case (Cons p rest)
  obtain g names where p: "p = (g, names)" by (cases p)
  have eq: "yy + 92 + dy = yy + dy + 92" by simp
  show ?case
    using Cons.IH [of "yy + 92"] unfolding eq
    by (simp add: p rr_def add.commute add.left_commute)
qed

lemma translate_visit_rows_loop:
  "map (translate dx dy) (visit_rows_loop F x3 yy rs) = visit_rows_loop F (x3 + dx) (yy + dy) rs"
proof (induction rs arbitrary: yy)
  case Nil
  show ?case by simp
next
  case (Cons p rest)
  obtain t q meta where p: "p = (t, q, meta)" by (cases p)
  have eq: "yy + 98 + dy = yy + dy + 98" by simp
  show ?case
    using Cons.IH [of "yy + 98"] unfolding eq
    by (simp add: p rr_def add.commute add.left_commute)
qed

text \<open>The loops over \<open>enumerate\<close>: each body moves with the origin.\<close>

lemma translate_folder_row:
  "map (translate dx dy) (folder_row F x1 y pw p) = folder_row F (x1 + dx) (y + dy) pw p"
  by (cases p) (simp add: folder_row_def rr_def Let_def add.commute add.left_commute
      add_diff_eq diff_add_eq)

lemma translate_folders_loop:
  "map (translate dx dy) (folders_loop F x1 y pw items) = folders_loop F (x1 + dx) (y + dy) pw items"
  by (simp add: folders_loop_def map_concat comp_def translate_folder_row)

lemma translate_map_pin:
  "map (translate dx dy) (map_pin (px, py)) = map_pin (px + dx, py + dy)"
  by (simp add: map_pin_def rr_def add.commute add.left_commute add_diff_eq diff_add_eq)

lemma translate_frequent_chip:
  "map (translate dx dy) (frequent_chip F x2 y p) = frequent_chip F (x2 + dx) (y + dy) p"
  by (cases p) (simp add: frequent_chip_def rr_def Let_def add.commute add.left_commute
      add_diff_eq diff_add_eq)

lemma translate_week_chip:
  "map (translate dx dy) (week_chip F x3 y p) = week_chip F (x3 + dx) (y + dy) p"
  by (cases p) (simp add: week_chip_def rr_def Let_def add.commute add.left_commute
      add_diff_eq diff_add_eq)

lemma translate_screen_saved:
  "map (translate dx dy) (screen_saved F x1 y) = screen_saved F (x1 + dx) (y + dy)"
proof -
  have sh: "a + b + dx = a + dx + b" "c + d + dy = c + dy + d" for a b c d :: int
    by simp_all
  show ?thesis
    unfolding screen_saved_def
    by (simp add: split_def Let_def phone_ret translate_phone translate_stat_pills
        translate_folders_loop translate_map_pin rr_def sh add_diff_eq diff_add_eq)
qed

lemma translate_screen_people:
  "map (translate dx dy) (screen_people F x2 y) = screen_people F (x2 + dx) (y + dy)"
proof -
  have sh: "a + b + dx = a + dx + b" "c + d + dy = c + dy + d" for a b c d :: int
    by simp_all
  show ?thesis
    unfolding screen_people_def
    by (simp add: translate_phone translate_stat_pills translate_people_rows_loop
        translate_frequent_chip map_concat comp_def rr_def sh add_diff_eq diff_add_eq)
qed

lemma translate_screen_timeline:
  "map (translate dx dy) (screen_timeline F x3 y) = screen_timeline F (x3 + dx) (y + dy)"
proof -
  have sh: "a + b + dx = a + dx + b" "c + d + dy = c + dy + d" for a b c d :: int
    by simp_all
  show ?thesis
    unfolding screen_timeline_def
    by (simp add: translate_phone translate_visit_rows_loop
        translate_week_chip map_concat comp_def rr_def sh add_diff_eq diff_add_eq)
qed

text \<open>
  C4. Moving a frame's origin from \<open>(x0, y0)\<close> to \<open>(x0 + dx0, y0 + dy0)\<close> and drawing again
  gives the same draw calls in the same order, each moved by \<open>(dx0, dy0)\<close> and otherwise
  unchanged; the returned size is the same. This holds for the builder \<open>phone\<close> and for
  each of the three screens with all their children.
\<close>

theorem frame_relocation:
  "fst (phone F (x0 + dx0) (y0 + dy0) title sel) = map (translate dx0 dy0) (fst (phone F x0 y0 title sel))
   \<and> snd (phone F (x0 + dx0) (y0 + dy0) title sel) = snd (phone F x0 y0 title sel)
   \<and> screen_saved F (x0 + dx0) (y0 + dy0) = map (translate dx0 dy0) (screen_saved F x0 y0)
   \<and> screen_people F (x0 + dx0) (y0 + dy0) = map (translate dx0 dy0) (screen_people F x0 y0)
   \<and> screen_timeline F (x0 + dx0) (y0 + dy0) = map (translate dx0 dy0) (screen_timeline F x0 y0)"
  by (simp add: translate_phone translate_screen_saved translate_screen_people
      translate_screen_timeline phone_ret)

section \<open>Row series\<close>






















section \<open>Arrows\<close>

lemma sqrt_one_plus_ratio:
  assumes "x \<noteq> 0"
  shows "sqrt (1 + (y / x)\<^sup>2) = sqrt (x\<^sup>2 + y\<^sup>2) / \<bar>x\<bar>"
proof -
  have "1 + (y / x)\<^sup>2 = (x\<^sup>2 + y\<^sup>2) / x\<^sup>2"
    using assms by (simp add: power_divide add_divide_distrib)
  then show ?thesis
    by (simp add: real_sqrt_divide)
qed

lemma norm_pos: "x \<noteq> 0 \<or> y \<noteq> 0 \<Longrightarrow> 0 < sqrt (x\<^sup>2 + y\<^sup>2)" for x y :: real
  by (simp add: sum_power2_gt_zero_iff)

lemma arctan_ratio:
  assumes "x \<noteq> 0"
  shows "sqrt (x\<^sup>2 + y\<^sup>2) * cos (arctan (y / x)) = \<bar>x\<bar>"
    and "sqrt (x\<^sup>2 + y\<^sup>2) * sin (arctan (y / x)) = y * \<bar>x\<bar> / x"
proof -
  have r: "0 < sqrt (x\<^sup>2 + y\<^sup>2)" using assms norm_pos by blast
  have ax: "0 < \<bar>x\<bar>" using assms by simp
  show "sqrt (x\<^sup>2 + y\<^sup>2) * cos (arctan (y / x)) = \<bar>x\<bar>"
    using r ax by (simp add: cos_arctan sqrt_one_plus_ratio [OF assms])
  show "sqrt (x\<^sup>2 + y\<^sup>2) * sin (arctan (y / x)) = y * \<bar>x\<bar> / x"
    using r ax assms by (simp add: sin_arctan sqrt_one_plus_ratio [OF assms])
qed

text \<open>
  \<open>atan2\<close> gives the direction of a vector that is not zero: the vector is its length
  times \<open>(cos \<theta>, sin \<theta>)\<close>.
\<close>

lemma atan2_direction:
  assumes "x \<noteq> 0 \<or> y \<noteq> 0"
  shows "sqrt (x\<^sup>2 + y\<^sup>2) * cos (atan2 y x) = x"
    and "sqrt (x\<^sup>2 + y\<^sup>2) * sin (atan2 y x) = y"
proof -
  consider (pos) "0 < x" | (neg) "x < 0" | (zero) "x = 0" by linarith
  then have "sqrt (x\<^sup>2 + y\<^sup>2) * cos (atan2 y x) = x \<and> sqrt (x\<^sup>2 + y\<^sup>2) * sin (atan2 y x) = y"
  proof cases
    case pos
    then have nz: "x \<noteq> 0" by simp
    show ?thesis
      using pos arctan_ratio [OF nz, of y] by (simp add: atan2_def)
  next
    case neg
    then have nz: "x \<noteq> 0" by simp
    show ?thesis
      using neg arctan_ratio [OF nz, of y] by (simp add: atan2_def)
  next
    case zero
    then have "y \<noteq> 0" using assms by simp
    then show ?thesis
      using zero by (auto simp add: atan2_def)
  qed
  then show "sqrt (x\<^sup>2 + y\<^sup>2) * cos (atan2 y x) = x"
    and "sqrt (x\<^sup>2 + y\<^sup>2) * sin (atan2 y x) = y" by simp_all
qed

lemma head_norm: "sqrt ((12 * cos a)\<^sup>2 + (12 * sin a)\<^sup>2) = 12" for a :: real
proof (rule real_sqrt_unique)
  have "(12 * cos a)\<^sup>2 + (12 * sin a)\<^sup>2 = 144 * (cos a)\<^sup>2 + 144 * (sin a)\<^sup>2"
    by (simp add: power_mult_distrib)
  also have "\<dots> = 144 * ((cos a)\<^sup>2 + (sin a)\<^sup>2)"
    by (simp only: distrib_left)
  also have "\<dots> = 144" by simp
  finally show "12\<^sup>2 = (12 * cos a)\<^sup>2 + (12 * sin a)\<^sup>2" by simp
  show "(0::real) \<le> 12" by simp
qed

text \<open>
  Two vectors of length 12 at angles \<open>\<theta> + a\<close> and \<open>\<theta> - a\<close> are mirror images in the
  direction \<open>\<theta>\<close>: the same component along it, opposite components across it.
\<close>

lemma head_symmetric:
  fixes \<theta> a r :: real
  assumes dx: "dx = r * cos \<theta>" and dy: "dy = r * sin \<theta>"
  shows "dot (12 * cos (\<theta> + a), 12 * sin (\<theta> + a)) (dx, dy)
           = dot (12 * cos (\<theta> - a), 12 * sin (\<theta> - a)) (dx, dy)"
    and "cross (12 * cos (\<theta> + a), 12 * sin (\<theta> + a)) (dx, dy)
           = - cross (12 * cos (\<theta> - a), 12 * sin (\<theta> - a)) (dx, dy)"
proof -
  show "dot (12 * cos (\<theta> + a), 12 * sin (\<theta> + a)) (dx, dy)
           = dot (12 * cos (\<theta> - a), 12 * sin (\<theta> - a)) (dx, dy)"
    by (simp add: dot_def dx dy cos_add sin_add cos_diff sin_diff algebra_simps)
  show "cross (12 * cos (\<theta> + a), 12 * sin (\<theta> + a)) (dx, dy)
           = - cross (12 * cos (\<theta> - a), 12 * sin (\<theta> - a)) (dx, dy)"
    by (simp add: cross_def dx dy cos_add sin_add cos_diff sin_diff algebra_simps)
qed

text \<open>
  C2, in real arithmetic. For all points \<open>p1 = (x1, y1)\<close> and \<open>p2 = (x2, y2)\<close>, \<open>arrow\<close>
  issues three line calls: the line from \<open>p1\<close> to \<open>p2\<close>, then two segments that start at
  \<open>p2\<close> and run along \<open>12 (cos (\<theta> \<plusminus> 2.6), sin (\<theta> \<plusminus> 2.6))\<close> with \<open>\<theta> = atan2 (y2 - y1)
  (x2 - x1)\<close>. Each of the two has length 12, whatever the distance between \<open>p1\<close> and
  \<open>p2\<close>, and they are mirror images in the direction from \<open>p1\<close> to \<open>p2\<close>: their components
  along \<open>p2 - p1\<close> are equal and their components across it are opposite.
\<close>

theorem arrow_head:
  fixes x1 y1 x2 y2 :: real and c :: color and w :: int
  defines "\<theta> \<equiv> atan2 (y2 - y1) (x2 - x1)"
  defines "a \<equiv> arrow x1 y1 x2 y2 c w"
  shows "length a = 3
    \<and> a ! 0 = Line (x1, y1, x2, y2) (Some c) w
    \<and> seg_start (a ! 1) = (x2, y2) \<and> seg_start (a ! 2) = (x2, y2)
    \<and> seg_vector (a ! 1) = (12 * cos (\<theta> + 26 / 10), 12 * sin (\<theta> + 26 / 10))
    \<and> seg_vector (a ! 2) = (12 * cos (\<theta> - 26 / 10), 12 * sin (\<theta> - 26 / 10))
    \<and> norm2 (seg_vector (a ! 1)) = 12 \<and> norm2 (seg_vector (a ! 2)) = 12
    \<and> dot (seg_vector (a ! 1)) (x2 - x1, y2 - y1) = dot (seg_vector (a ! 2)) (x2 - x1, y2 - y1)
    \<and> cross (seg_vector (a ! 1)) (x2 - x1, y2 - y1) = - cross (seg_vector (a ! 2)) (x2 - x1, y2 - y1)"
proof -
  have v1: "seg_vector (a ! 1) = (12 * cos (\<theta> + 26 / 10), 12 * sin (\<theta> + 26 / 10))"
    and v2: "seg_vector (a ! 2) = (12 * cos (\<theta> - 26 / 10), 12 * sin (\<theta> - 26 / 10))"
    by (simp_all add: a_def \<theta>_def arrow_def Let_def)
  have shape: "length a = 3" "a ! 0 = Line (x1, y1, x2, y2) (Some c) w"
    "seg_start (a ! 1) = (x2, y2)" "seg_start (a ! 2) = (x2, y2)"
    by (simp_all add: a_def arrow_def Let_def)
  have n: "norm2 (seg_vector (a ! 1)) = 12" "norm2 (seg_vector (a ! 2)) = 12"
    unfolding v1 v2 norm2_def fst_conv snd_conv by (rule head_norm)+
  have sym: "dot (seg_vector (a ! 1)) (x2 - x1, y2 - y1) = dot (seg_vector (a ! 2)) (x2 - x1, y2 - y1)
    \<and> cross (seg_vector (a ! 1)) (x2 - x1, y2 - y1) = - cross (seg_vector (a ! 2)) (x2 - x1, y2 - y1)"
  proof (cases "x2 - x1 \<noteq> 0 \<or> y2 - y1 \<noteq> 0")
    case True
    have "x2 - x1 = sqrt ((x2 - x1)\<^sup>2 + (y2 - y1)\<^sup>2) * cos \<theta>"
      and "y2 - y1 = sqrt ((x2 - x1)\<^sup>2 + (y2 - y1)\<^sup>2) * sin \<theta>"
      using atan2_direction [OF True] by (simp_all add: \<theta>_def)
    then show ?thesis
      unfolding v1 v2 using head_symmetric by blast
  next
    case False
    then show ?thesis by (simp add: dot_def cross_def)
  qed
  show ?thesis using shape v1 v2 n sym by simp
qed

section \<open>Centred labels\<close>

text \<open>
  C5. In every smart-reply chip of both email scripts, for every index, label, font and
  text measure, the label's left edge is the centre of the chip's rectangle minus half
  the label's width as measured in the font the label is drawn with. The font is
  arbitrary, so this holds at every font size.
\<close>

theorem chips_centred:
  "centred e (smart_reply_chip e F x2 y2 (i, c))
   \<and> centred e (smart_reply_cell e G x4 y4 ry ty (i, c))"
  by (simp add: smart_reply_chip_def smart_reply_cell_def Let_def field_simps)

section \<open>Font setup\<close>

text \<open>The \<open>try\<close> block fails exactly when one of the loads it makes raises.\<close>

lemma try_fonts_flow_None:
  "(try_fonts_flow e = None) =
     (truetype e sfns 44 = None \<or> truetype e sfns 28 = None \<or> truetype e sfns 22 = None
      \<or> truetype e sfns 18 = None)"
  by (auto simp add: try_fonts_flow_def Option.bind_eq_None_conv)

lemma try_fonts_redesign_None:
  "(try_fonts_redesign e = None) =
     (truetype e sfns 42 = None \<or> truetype e sfns 22 = None \<or> truetype e sfns 28 = None
      \<or> truetype e sfns 20 = None \<or> truetype e sfns 17 = None \<or> truetype e sfns 14 = None)"
  by (auto simp add: try_fonts_redesign_def Option.bind_eq_None_conv)

lemma try_fonts_email_None:
  "(try_fonts_email e = None) =
     (truetype e arial_bold 40 = None \<or> truetype e arial 22 = None \<or> truetype e arial 18 = None
      \<or> truetype e arial 15 = None \<or> truetype e arial_bold 24 = None)"
  by (auto simp add: try_fonts_email_def Option.bind_eq_None_conv)

lemma try_fonts_sidebar_None:
  "(try_fonts_sidebar e = None) =
     (truetype e arial_bold 42 = None \<or> truetype e arial 22 = None \<or> truetype e arial_bold 26 = None
      \<or> truetype e arial 18 = None \<or> truetype e arial 15 = None)"
  by (auto simp add: try_fonts_sidebar_def Option.bind_eq_None_conv)

text \<open>
  In each of the four scripts, when any of the TrueType loads raises, font setup binds
  every font role to the default font, also a role already loaded; font setup itself
  yields a font for every role.
\<close>

lemma font_setup_falls_back:
  "(truetype e sfns 44 = None \<or> truetype e sfns 28 = None \<or> truetype e sfns 22 = None
      \<or> truetype e sfns 18 = None \<longrightarrow>
      font_setup_flow e = \<lparr>ft = load_default e, fh = load_default e, fb = load_default e,
                            fs = load_default e\<rparr>)
   \<and> (truetype e arial_bold 40 = None \<or> truetype e arial 22 = None \<or> truetype e arial 18 = None
      \<or> truetype e arial 15 = None \<or> truetype e arial_bold 24 = None \<longrightarrow>
      font_setup_email e = \<lparr>f_title_e = load_default e, f_sub_e = load_default e,
        f_body = load_default e, f_small = load_default e, f_h3 = load_default e\<rparr>)
   \<and> (truetype e sfns 42 = None \<or> truetype e sfns 22 = None \<or> truetype e sfns 28 = None
      \<or> truetype e sfns 20 = None \<or> truetype e sfns 17 = None \<or> truetype e sfns 14 = None \<longrightarrow>
      font_setup_redesign e = \<lparr>f_title = load_default e, f_sub = load_default e,
        f_h = load_default e, f_b = load_default e, f_sm = load_default e, f_xs = load_default e\<rparr>)
   \<and> (truetype e arial_bold 42 = None \<or> truetype e arial 22 = None \<or> truetype e arial_bold 26 = None
      \<or> truetype e arial 18 = None \<or> truetype e arial 15 = None \<longrightarrow>
      font_setup_sidebar e = \<lparr>f_title_k = load_default e, f_sub_k = load_default e,
        f_h_k = load_default e, f_b_k = load_default e, f_s = load_default e\<rparr>)"
proof -
  have flow: "try_fonts_flow e = None \<Longrightarrow> font_setup_flow e =
      \<lparr>ft = load_default e, fh = load_default e, fb = load_default e, fs = load_default e\<rparr>"
    by (simp add: font_setup_flow_def)
  have email: "try_fonts_email e = None \<Longrightarrow> font_setup_email e =
      \<lparr>f_title_e = load_default e, f_sub_e = load_default e,
        f_body = load_default e, f_small = load_default e, f_h3 = load_default e\<rparr>"
    by (simp add: font_setup_email_def)
  have redesign: "try_fonts_redesign e = None \<Longrightarrow> font_setup_redesign e =
      \<lparr>f_title = load_default e, f_sub = load_default e,
        f_h = load_default e, f_b = load_default e, f_sm = load_default e, f_xs = load_default e\<rparr>"
    by (simp add: font_setup_redesign_def)
  have sidebar: "try_fonts_sidebar e = None \<Longrightarrow> font_setup_sidebar e =
      \<lparr>f_title_k = load_default e, f_sub_k = load_default e,
        f_h_k = load_default e, f_b_k = load_default e, f_s = load_default e\<rparr>"
    by (simp add: font_setup_sidebar_def)
  show ?thesis
    using flow email redesign sidebar
    unfolding try_fonts_flow_None try_fonts_email_None try_fonts_redesign_None try_fonts_sidebar_None
    by blast
qed

subsection \<open>Drawing text with the fallback font\<close>

lemma map_filter_append:
  "List.map_filter f (xs @ ys) = List.map_filter f xs @ List.map_filter f ys"
  by (simp add: List.map_filter_def)

lemma ascii_str: "list_all (\<lambda>c. c < 256) (str cs)"
  by (simp add: str_def list_all_iff)

lemma run_script_total:
  assumes "\<And>f s. draw_text f s = None"
  shows "run_script draw_text e img out = export e img out"
proof -
  have "text_error draw_text c = None" for c :: "'a draw"
    using assms by (cases c) simp_all
  then have "List.map_filter (text_error draw_text) cs = []" for cs :: "'a draw list"
    by (induction cs) (simp_all add: List.map_filter_simps)
  then show ?thesis by (simp add: run_script_def)
qed

lemma fonts_flow_fallback:
  "font_setup_flow env_fallback =
     \<lparr>ft = DefaultFont, fh = DefaultFont, fb = DefaultFont, fs = DefaultFont\<rparr>"
  by (simp add: font_setup_flow_def try_fonts_flow_def env_fallback_def)

lemma flow_dies:
  "run_flow_text bitmap_default env_fallback =
     \<lparr>effects = [], status = Uncaught ''UnicodeEncodeError''\<rparr>"
  by (simp add: run_flow_text_def run_script_def fonts_flow_fallback draw_flow_def
      header_flow_def nodes_flow_def rr_flow_def text_lines_def bullet_def
      List.map_filter_simps map_filter_append bitmap_default_def ascii_str)

lemma fonts_redesign_fallback:
  "font_setup_redesign env_fallback =
     \<lparr>f_title = DefaultFont, f_sub = DefaultFont, f_h = DefaultFont, f_b = DefaultFont,
      f_sm = DefaultFont, f_xs = DefaultFont\<rparr>"
  by (simp add: font_setup_redesign_def try_fonts_redesign_def env_fallback_def)

lemma first_error:
  "List.map_filter g (xs @ c # ys) = e # List.map_filter g ys" if "List.map_filter g xs = []" "g c = Some e"
  using that by (simp add: map_filter_append List.map_filter_simps)

lemma redesign_dies:
  "run_redesign_text bitmap_default env_fallback =
     \<lparr>effects = [], status = Uncaught ''UnicodeEncodeError''\<rparr>"
proof -
  let ?F = "font_setup_redesign env_fallback"
  have t: "List.map_filter (text_error bitmap_default) (title_redesign ?F) = []"
    by (simp add: title_redesign_def fonts_redesign_fallback bitmap_default_def ascii_str
        List.map_filter_simps)
  have p: "\<exists>rest. List.map_filter (text_error bitmap_default)
       (fst (phone ?F 36 106 (str ''Saved Locations'') (str ''Saved''))) = ''UnicodeEncodeError'' # rest"
    by (simp add: phone_def rr_def fonts_redesign_fallback bitmap_default_def
        List.map_filter_simps map_filter_append Let_def)
  have "\<exists>rest. List.map_filter (text_error bitmap_default) (calls (draw_redesign ?F))
      = ''UnicodeEncodeError'' # rest"
    using t p
    by (auto simp add: draw_redesign_def screen_saved_def Let_def split_def map_filter_append)
  then show ?thesis
    by (auto simp add: run_redesign_text_def run_script_def)
qed

lemma freetype_draws:
  assumes "\<And>c. c \<in> set cs \<Longrightarrow> (case c of Text xy s f fill anchor \<Rightarrow> f \<noteq> DefaultFont | _ \<Rightarrow> True)"
  shows "List.map_filter (text_error bitmap_default) cs = []"
  using assms
proof (induction cs)
  case Nil
  show ?case by (simp add: List.map_filter_simps)
next
  case (Cons c cs)
  have "text_error bitmap_default c = None"
    using Cons.prems [of c] by (cases c) (auto simp add: bitmap_default_def split: font.splits)
  then show ?case using Cons by (simp add: List.map_filter_simps)
qed

lemma flow_truetype:
  "status (run_flow_text bitmap_default env_truetype) = ExitSuccess"
proof -
  have F: "font_setup_flow env_truetype =
     \<lparr>ft = FreeTypeFont sfns 44, fh = FreeTypeFont sfns 28, fb = FreeTypeFont sfns 22,
      fs = FreeTypeFont sfns 18\<rparr>"
    by (simp add: font_setup_flow_def try_fonts_flow_def env_truetype_def)
  have "List.map_filter (text_error bitmap_default) (calls (draw_flow (font_setup_flow env_truetype))) = []"
    by (simp add: F draw_flow_def header_flow_def nodes_flow_def rr_flow_def text_lines_def
        arrows_top_flow_def shared_layer_flow_def drilldown_flow_def arrows_shared_flow_def
        arrow_def Let_def List.map_filter_simps map_filter_append bitmap_default_def)
  then show ?thesis
    by (simp add: run_flow_text_def run_script_def export_def env_truetype_def)
qed

lemma fonts_flow_partial:
  "font_setup_flow env_partial =
     \<lparr>ft = DefaultFont, fh = DefaultFont, fb = DefaultFont, fs = DefaultFont\<rparr>"
  by (simp add: font_setup_flow_def try_fonts_flow_def env_partial_def)

text \<open>
  C6 fails on the code where the default font cannot render the script's own strings.
  With no TrueType font to load, font setup binds every role to the default font, as
  the claim says. Under Pillow before 10.1 the run then ends in the first \<open>d.text\<close> whose
  string has a code point above 255 (the bullet in the flow script, the menu glyph in
  the redesign script): an uncaught \<open>UnicodeEncodeError\<close>, nothing saved, nothing printed.
  The same installation with the TrueType fonts present runs the flow script to success,
  so the failure is the missing font reaching the exit status.
\<close>

theorem fallback_run_dies_in_text:
  "truetype env_fallback sfns 44 = None
   \<and> font_setup_flow env_fallback =
        \<lparr>ft = DefaultFont, fh = DefaultFont, fb = DefaultFont, fs = DefaultFont\<rparr>
   \<and> font_setup_flow env_partial =
        \<lparr>ft = DefaultFont, fh = DefaultFont, fb = DefaultFont, fs = DefaultFont\<rparr>
   \<and> run_flow_text bitmap_default env_fallback =
        \<lparr>effects = [], status = Uncaught ''UnicodeEncodeError''\<rparr>
   \<and> run_redesign_text bitmap_default env_fallback =
        \<lparr>effects = [], status = Uncaught ''UnicodeEncodeError''\<rparr>
   \<and> status (run_flow_text bitmap_default env_truetype) = ExitSuccess"
  using fonts_flow_fallback fonts_flow_partial flow_dies redesign_dies flow_truetype
  by (simp add: env_fallback_def)

section \<open>Export\<close>


end
